theory Spec2Isabelle
  imports Main "HOL-Library.Word"
begin

section \<open>Values, errors and strings\<close>

text \<open>
  Byte strings and text strings are both lists of 8-bit characters. A value handed to or
  returned by the native library is the null pointer, some other pointer, or a byte string
  passed as a character buffer.
\<close>

type_synonym bytes = string

datatype cdata = NULL | Ptr nat | Bytes bytes

datatype cipher_cls = AES | Camellia | TripleDES | Cipher_class string

datatype mode_cls = CBC | CTR | ECB | OFB | CFB | Mode_class string

text \<open>
  The exceptions the modelled code can raise: the explicit \<^verbatim>\<open>raise ValueError\<close> of a
  duplicate registration, the \<^verbatim>\<open>KeyError\<close> of a dictionary lookup, a failed
  \<^verbatim>\<open>assert\<close>, a failed \<^verbatim>\<open>.encode("ascii")\<close> (a \<^verbatim>\<open>UnicodeEncodeError\<close> or, on
  a Python 2 byte string, a \<^verbatim>\<open>UnicodeDecodeError\<close>), a missing attribute, and an array
  allocation of negative length or of a length that does not fit a machine word.
\<close>

datatype error =
    ValueError_duplicate_registration cipher_cls mode_cls
  | ValueError_negative_array_length
  | OverflowError
  | KeyError
  | AssertionError
  | UnicodeError
  | AttributeError

text \<open>\<^verbatim>\<open>str.lower()\<close>: the letters A to Z are mapped to a to z, every other character is kept.\<close>

definition lower_char :: "char \<Rightarrow> char" where
  "lower_char c =
     (if 65 \<le> (of_char c :: nat) \<and> (of_char c :: nat) \<le> 90
      then char_of (of_char c + (32 :: nat)) else c)"

definition lower :: "string \<Rightarrow> string" where
  "lower s = map lower_char s"

text \<open>\<^verbatim>\<open>str.encode("ascii")\<close> raises on a character outside the 7-bit range.\<close>

definition encode_ascii :: "string \<Rightarrow> error + bytes" where
  "encode_ascii s = (if list_all (\<lambda>c. \<not> digit7 c) s then Inr s else Inl UnicodeError)"

text \<open>The decimal text of a non-negative integer, as \<^verbatim>\<open>format\<close> writes it.\<close>

fun str_nat :: "nat \<Rightarrow> string" where
  "str_nat n =
     (if n < 10 then [char_of (48 + n)]
      else str_nat (n div 10) @ [char_of (48 + n mod 10)])"

declare str_nat.simps [simp del]

section \<open>Cipher, mode and hash objects\<close>

text \<open>
  Modelled from the spec: the module \<^verbatim>\<open>cryptography.primitives.block.ciphers\<close> is missing.
  A cipher object has a class, a name and a key; its key size is the key length in bits.
\<close>

record cipher =
  cipher_type :: cipher_cls
  cipher_name :: string
  key :: bytes

definition key_size :: "cipher \<Rightarrow> nat" where
  "key_size c = length (key c) * 8"

definition AES_init :: "bytes \<Rightarrow> cipher" where
  "AES_init k = \<lparr>cipher_type = AES, cipher_name = ''AES'', key = k\<rparr>"

text \<open>
  A mode object has a class and a name; the attributes \<^verbatim>\<open>initialization_vector\<close> and
  \<^verbatim>\<open>nonce\<close> are present or absent. \<^verbatim>\<open>modes.py\<close> defines the classes CBC and ECB.
\<close>

record mode =
  mode_type :: mode_cls
  mode_name :: string
  initialization_vector :: "bytes option"
  nonce :: "bytes option"

definition CBC_init :: "bytes \<Rightarrow> mode" where
  "CBC_init iv =
     \<lparr>mode_type = CBC, mode_name = ''CBC'', initialization_vector = Some iv, nonce = None\<rparr>"

definition ECB_init :: mode where
  "ECB_init =
     \<lparr>mode_type = ECB, mode_name = ''ECB'', initialization_vector = None, nonce = None\<rparr>"

record api =
  get_null_for_ecb :: cdata

definition CBC_get_iv_or_nonce :: "mode \<Rightarrow> api \<Rightarrow> error + cdata" where
  "CBC_get_iv_or_nonce self a =
     (case initialization_vector self of None \<Rightarrow> Inl AttributeError | Some iv \<Rightarrow> Inr (Bytes iv))"

definition ECB_get_iv_or_nonce :: "mode \<Rightarrow> api \<Rightarrow> error + cdata" where
  "ECB_get_iv_or_nonce self a = Inr (get_null_for_ecb a)"

text \<open>
  The module \<^verbatim>\<open>cryptography.primitives.interfaces\<close> is missing: which mode classes are
  instances of its two interfaces is a parameter.
\<close>

record interfaces =
  ModeWithInitializationVector :: "mode_cls \<Rightarrow> bool"
  ModeWithNonce :: "mode_cls \<Rightarrow> bool"


section \<open>The native library\<close>

text \<open>
  The library is opaque: each function used by the backend is a parameter, acting on a
  native state \<open>'s\<close>. A function that fills an output buffer returns the bytes it writes from
  the start of the buffer; it is not told how long the buffer is. The block size, which
  sizes the buffers, is the C \<^verbatim>\<open>int\<close> the library returns, read as a signed value.
\<close>

record 's lib =
  EVP_get_cipherbyname :: "'s \<Rightarrow> bytes \<Rightarrow> cdata"
  EVP_get_digestbyname :: "'s \<Rightarrow> bytes \<Rightarrow> cdata"
  EVP_CIPHER_CTX_new :: "'s \<Rightarrow> cdata \<times> 's"
  EVP_EncryptInit_ex :: "'s \<Rightarrow> cdata \<Rightarrow> cdata \<Rightarrow> cdata \<Rightarrow> bytes \<Rightarrow> cdata \<Rightarrow> int \<times> 's"
  EVP_DecryptInit_ex :: "'s \<Rightarrow> cdata \<Rightarrow> cdata \<Rightarrow> cdata \<Rightarrow> bytes \<Rightarrow> cdata \<Rightarrow> int \<times> 's"
  EVP_CIPHER_CTX_set_padding :: "'s \<Rightarrow> cdata \<Rightarrow> int \<Rightarrow> int \<times> 's"
  EVP_CIPHER_CTX_block_size :: "'s \<Rightarrow> cdata \<Rightarrow> 32 word"
  EVP_EncryptUpdate :: "'s \<Rightarrow> cdata \<Rightarrow> bytes \<Rightarrow> int \<Rightarrow> (int \<times> bytes \<times> int) \<times> 's"
  EVP_DecryptUpdate :: "'s \<Rightarrow> cdata \<Rightarrow> bytes \<Rightarrow> int \<Rightarrow> (int \<times> bytes \<times> int) \<times> 's"
  EVP_EncryptFinal_ex :: "'s \<Rightarrow> cdata \<Rightarrow> (int \<times> bytes \<times> int) \<times> 's"
  EVP_DecryptFinal_ex :: "'s \<Rightarrow> cdata \<Rightarrow> (int \<times> bytes \<times> int) \<times> 's"
  EVP_CIPHER_CTX_cleanup :: "'s \<Rightarrow> cdata \<Rightarrow> int \<times> 's"
  EVP_DigestFinal_ex :: "'s \<Rightarrow> cdata \<Rightarrow> (int \<times> bytes) \<times> 's"
  EVP_MD_CTX_cleanup :: "'s \<Rightarrow> cdata \<Rightarrow> int \<times> 's"

text \<open>
  \<^verbatim>\<open>ffi.new("unsigned char[]", n)\<close> gives \<open>n\<close> zero bytes; it raises on a negative
  length and on a length of \<open>2 ^ 63\<close> or more. \<^verbatim>\<open>ffi.buffer(buf)\<close> reads the array back
  after the library wrote into it: the written bytes over the zeros, as many bytes as the
  array has. When the library writes more bytes than the array holds, the program overruns
  native memory: \<open>ffi_buffer\<close> gives the bytes inside the array only, and what follows such a
  call is outside this model. \<^verbatim>\<open>b[:k]\<close> is the Python slice, whose negative \<open>k\<close> counts
  from the end.
\<close>

definition ffi_new :: "int \<Rightarrow> error + bytes" where
  "ffi_new n = (if n < 0 then Inl ValueError_negative_array_length
                else if 2 ^ 63 \<le> n then Inl OverflowError
                else Inr (replicate (nat n) (CHR 0x00)))"

definition ffi_buffer :: "bytes \<Rightarrow> bytes \<Rightarrow> bytes" where
  "ffi_buffer buf written = take (length buf) written @ drop (length written) buf"

definition slice_to :: "bytes \<Rightarrow> int \<Rightarrow> bytes" where
  "slice_to b k = (if 0 \<le> k then take (nat k) b else take (length b - nat (- k)) b)"

section \<open>The cipher registry\<close>

text \<open>
  A format string is a list of literal pieces and of the three fields the backend's
  templates use.
\<close>

datatype fmt_field = Lit string | Cipher_name | Cipher_key_size | Mode_name

fun format_field :: "cipher \<Rightarrow> mode \<Rightarrow> fmt_field \<Rightarrow> string" where
  "format_field c m (Lit s) = s"
| "format_field c m Cipher_name = cipher_name c"
| "format_field c m Cipher_key_size = str_nat (key_size c)"
| "format_field c m Mode_name = mode_name m"

definition format :: "fmt_field list \<Rightarrow> cipher \<Rightarrow> mode \<Rightarrow> string" where
  "format fmt c m = concat (map (format_field c m) fmt)"

type_synonym 's adapter = "'s lib \<Rightarrow> 's \<Rightarrow> cipher \<Rightarrow> mode \<Rightarrow> error + cdata"

type_synonym 's registry = "cipher_cls \<times> mode_cls \<Rightarrow> 's adapter option"

definition GetCipherByName :: "fmt_field list \<Rightarrow> 's adapter" where
  "GetCipherByName fmt backend s c m =
     (let cipher_name = lower (format fmt c m)
      in case encode_ascii cipher_name of
           Inl e \<Rightarrow> Inl e
         | Inr b \<Rightarrow> Inr (EVP_get_cipherbyname backend s b))"

definition Ciphers_supported ::
  "'s lib \<Rightarrow> 's registry \<Rightarrow> 's \<Rightarrow> cipher \<Rightarrow> mode \<Rightarrow> error + bool" where
  "Ciphers_supported l reg s c m =
     (case reg (cipher_type c, mode_type m) of
        None \<Rightarrow> Inr False
      | Some adapter \<Rightarrow>
          (case adapter l s c m of
             Inl e \<Rightarrow> Inl e
           | Inr evp_cipher \<Rightarrow> Inr (NULL \<noteq> evp_cipher)))"

definition register_cipher_adapter ::
  "'s registry \<Rightarrow> cipher_cls \<Rightarrow> mode_cls \<Rightarrow> 's adapter \<Rightarrow> (error + unit) \<times> 's registry" where
  "register_cipher_adapter reg ccls mcls adapter =
     (if reg (ccls, mcls) \<noteq> None
      then (Inl (ValueError_duplicate_registration ccls mcls), reg)
      else (Inr (), reg((ccls, mcls) \<mapsto> adapter)))"

text \<open>A \<^verbatim>\<open>for\<close> loop of registrations with one format; the first exception ends it.\<close>

fun register_each ::
  "'s registry \<Rightarrow> (cipher_cls \<times> mode_cls) list \<Rightarrow> fmt_field list \<Rightarrow> (error + unit) \<times> 's registry" where
  "register_each reg [] fmt = (Inr (), reg)"
| "register_each reg ((ccls, mcls) # rest) fmt =
     (case register_cipher_adapter reg ccls mcls (GetCipherByName fmt) of
        (Inl e, reg') \<Rightarrow> (Inl e, reg')
      | (Inr u, reg') \<Rightarrow> register_each reg' rest fmt)"

definition Ciphers_register_default_ciphers :: "'s registry \<Rightarrow> (error + unit) \<times> 's registry" where
  "Ciphers_register_default_ciphers reg =
     (case register_each reg (List.product [AES, Camellia] [CBC, CTR, ECB, OFB, CFB])
             [Cipher_name, Lit ''-'', Cipher_key_size, Lit ''-'', Mode_name] of
        (Inl e, reg') \<Rightarrow> (Inl e, reg')
      | (Inr u, reg') \<Rightarrow>
          register_each reg' (map (Pair TripleDES) [CBC, CFB, OFB])
            [Lit ''des-ede3-'', Mode_name])"

text \<open>\<^verbatim>\<open>Ciphers.__init__\<close>: an empty registry, then the default ciphers.\<close>

definition Ciphers_init :: "(error + unit) \<times> 's registry" where
  "Ciphers_init = Ciphers_register_default_ciphers Map.empty"


section \<open>Cipher contexts\<close>

definition Ciphers_create_ctx ::
  "interfaces \<Rightarrow> 's lib \<Rightarrow> 's registry \<Rightarrow> 's \<Rightarrow> cipher \<Rightarrow> mode
     \<Rightarrow> (error + cdata \<times> cdata \<times> cdata) \<times> 's" where
  "Ciphers_create_ctx ifc l reg s c m =
     (case EVP_CIPHER_CTX_new l s of
        (ctx, s1) \<Rightarrow>
          (case reg (cipher_type c, mode_type m) of
             None \<Rightarrow> (Inl KeyError, s1)
           | Some adapter \<Rightarrow>
               (case adapter l s1 c m of
                  Inl e \<Rightarrow> (Inl e, s1)
                | Inr evp_cipher \<Rightarrow>
                    if evp_cipher = NULL then (Inl AssertionError, s1)
                    else if ModeWithInitializationVector ifc (mode_type m) then
                      (case initialization_vector m of
                         None \<Rightarrow> (Inl AttributeError, s1)
                       | Some iv \<Rightarrow> (Inr (ctx, evp_cipher, Bytes iv), s1))
                    else if ModeWithNonce ifc (mode_type m) then
                      (case nonce m of
                         None \<Rightarrow> (Inl AttributeError, s1)
                       | Some n \<Rightarrow> (Inr (ctx, evp_cipher, Bytes n), s1))
                    else (Inr (ctx, evp_cipher, NULL), s1))))"

definition create_encrypt_ctx ::
  "interfaces \<Rightarrow> 's lib \<Rightarrow> 's registry \<Rightarrow> 's \<Rightarrow> cipher \<Rightarrow> mode \<Rightarrow> (error + cdata) \<times> 's" where
  "create_encrypt_ctx ifc l reg s c m =
     (case Ciphers_create_ctx ifc l reg s c m of
        (Inl e, s1) \<Rightarrow> (Inl e, s1)
      | (Inr (ctx, evp, iv_nonce), s1) \<Rightarrow>
          (case EVP_EncryptInit_ex l s1 ctx evp NULL (key c) iv_nonce of
             (res, s2) \<Rightarrow>
               if res = 0 then (Inl AssertionError, s2)
               else (case EVP_CIPHER_CTX_set_padding l s2 ctx 0 of
                       (r, s3) \<Rightarrow> (Inr ctx, s3))))"

definition create_decrypt_ctx ::
  "interfaces \<Rightarrow> 's lib \<Rightarrow> 's registry \<Rightarrow> 's \<Rightarrow> cipher \<Rightarrow> mode \<Rightarrow> (error + cdata) \<times> 's" where
  "create_decrypt_ctx ifc l reg s c m =
     (case Ciphers_create_ctx ifc l reg s c m of
        (Inl e, s1) \<Rightarrow> (Inl e, s1)
      | (Inr (ctx, evp, iv_nonce), s1) \<Rightarrow>
          (case EVP_DecryptInit_ex l s1 ctx evp NULL (key c) iv_nonce of
             (res, s2) \<Rightarrow>
               if res = 0 then (Inl AssertionError, s2)
               else (case EVP_CIPHER_CTX_set_padding l s2 ctx 0 of
                       (r, s3) \<Rightarrow> (Inr ctx, s3))))"



definition finalize_encrypt_ctx :: "'s lib \<Rightarrow> 's \<Rightarrow> cdata \<Rightarrow> (error + bytes) \<times> 's" where
  "finalize_encrypt_ctx l s ctx =
     (let block_size = sint (EVP_CIPHER_CTX_block_size l s ctx)
      in case ffi_new block_size of
           Inl e \<Rightarrow> (Inl e, s)
         | Inr buf \<Rightarrow>
             (case EVP_EncryptFinal_ex l s ctx of
                ((res, written, outlen), s1) \<Rightarrow>
                  if res = 0 then (Inl AssertionError, s1)
                  else (case EVP_CIPHER_CTX_cleanup l s1 ctx of
                          (res', s2) \<Rightarrow>
                            if res' \<noteq> 1 then (Inl AssertionError, s2)
                            else (Inr (slice_to (ffi_buffer buf written) outlen), s2))))"

definition finalize_decrypt_ctx :: "'s lib \<Rightarrow> 's \<Rightarrow> cdata \<Rightarrow> (error + bytes) \<times> 's" where
  "finalize_decrypt_ctx l s ctx =
     (let block_size = sint (EVP_CIPHER_CTX_block_size l s ctx)
      in case ffi_new block_size of
           Inl e \<Rightarrow> (Inl e, s)
         | Inr buf \<Rightarrow>
             (case EVP_DecryptFinal_ex l s ctx of
                ((res, written, outlen), s1) \<Rightarrow>
                  if res = 0 then (Inl AssertionError, s1)
                  else (case EVP_CIPHER_CTX_cleanup l s1 ctx of
                          (res', s2) \<Rightarrow>
                            if res' \<noteq> 1 then (Inl AssertionError, s2)
                            else (Inr (slice_to (ffi_buffer buf written) outlen), s2))))"

section \<open>Digest contexts\<close>


section \<open>A small engine for evaluation\<close>

text \<open>
  A deterministic stand-in for the native library, used to run the backend on concrete
  inputs: four-byte blocks, an identity transform that holds back an incomplete block, a
  padding flag, a four-byte digest, and a short table of known names.
\<close>

record toy =
  handles :: nat
  padding :: bool
  held :: bytes
  released :: bool

definition toy0 :: toy where
  "toy0 = \<lparr>handles = 0, padding = True, held = [], released = False\<rparr>"

definition toy_update :: "toy \<Rightarrow> cdata \<Rightarrow> bytes \<Rightarrow> int \<Rightarrow> (int \<times> bytes \<times> int) \<times> toy" where
  "toy_update s ctx data n =
     (let pool = held s @ data; k = (length pool div 4) * 4
      in ((1, take k pool, int k), s\<lparr>held := drop k pool\<rparr>))"

definition toy_final :: "toy \<Rightarrow> cdata \<Rightarrow> (int \<times> bytes \<times> int) \<times> toy" where
  "toy_final s ctx =
     (if padding s
      then ((1, held s @ replicate (4 - length (held s)) (CHR ''#''), 4), s\<lparr>held := []\<rparr>)
      else if held s = [] then ((1, [], 0), s)
      else ((0, [], 0), s))"

definition toy_init ::
  "toy \<Rightarrow> cdata \<Rightarrow> cdata \<Rightarrow> cdata \<Rightarrow> bytes \<Rightarrow> cdata \<Rightarrow> int \<times> toy" where
  "toy_init s ctx evp impl k iv =
     (if k = [] then (0, s) else (1, s\<lparr>padding := True, held := [], released := False\<rparr>))"

definition toy_lib :: "toy lib" where
  "toy_lib =
     \<lparr>EVP_get_cipherbyname =
        (\<lambda>s b. if b = ''aes-128-cbc'' then Ptr 101
                else if b = ''aes-256-ecb'' then Ptr 102
                else if b = ''des-ede3-cfb'' then Ptr 103
                else if b = ''aes-128-ctr'' then Ptr 104
                else NULL),
      EVP_get_digestbyname = (\<lambda>s b. if b = ''sha1'' then Ptr 201 else NULL),
      EVP_CIPHER_CTX_new = (\<lambda>s. (Ptr (Suc (handles s)), s\<lparr>handles := Suc (handles s)\<rparr>)),
      EVP_EncryptInit_ex = toy_init,
      EVP_DecryptInit_ex = toy_init,
      EVP_CIPHER_CTX_set_padding = (\<lambda>s ctx p. (1, s\<lparr>padding := (p \<noteq> 0)\<rparr>)),
      EVP_CIPHER_CTX_block_size = (\<lambda>s ctx. 4),
      EVP_EncryptUpdate = toy_update,
      EVP_DecryptUpdate = toy_update,
      EVP_EncryptFinal_ex = toy_final,
      EVP_DecryptFinal_ex = toy_final,
      EVP_CIPHER_CTX_cleanup = (\<lambda>s ctx. (1, s\<lparr>held := [], released := True\<rparr>)),
      EVP_DigestFinal_ex = (\<lambda>s ctx. ((1, ''DGST''), s)),
      EVP_MD_CTX_cleanup = (\<lambda>s ctx. (1, s\<lparr>released := True\<rparr>))\<rparr>"

text \<open>The same engine in a broken build: every cipher initialization reports failure.\<close>

definition broken_lib :: "toy lib" where
  "broken_lib =
     toy_lib\<lparr>EVP_EncryptInit_ex := (\<lambda>s ctx evp impl k iv. (0, s)),
             EVP_DecryptInit_ex := (\<lambda>s ctx evp impl k iv. (0, s))\<rparr>"


definition toy_interfaces :: interfaces where
  "toy_interfaces =
     \<lparr>ModeWithInitializationVector = (\<lambda>cls. cls = CBC \<or> cls = OFB \<or> cls = CFB),
      ModeWithNonce = (\<lambda>cls. cls = CTR)\<rparr>"

section \<open>Auxiliary facts\<close>







lemma reg_default:
  "fst (Ciphers_init :: (error + unit) \<times> 's registry) = Inr ()"
  "cc \<in> {AES, Camellia} \<Longrightarrow> mc \<in> {CBC, CTR, ECB, OFB, CFB} \<Longrightarrow> snd (Ciphers_init :: (error + unit) \<times> 's registry) (cc, mc) = Some (GetCipherByName [Cipher_name, Lit ''-'', Cipher_key_size, Lit ''-'', Mode_name])"
  "mc \<in> {CBC, CFB, OFB} \<Longrightarrow> snd (Ciphers_init :: (error + unit) \<times> 's registry) (TripleDES, mc) = Some (GetCipherByName [Lit ''des-ede3-'', Mode_name])"
  by (auto simp: Ciphers_init_def Ciphers_register_default_ciphers_def register_cipher_adapter_def)

lemma name_aes_128_cbc:
  "lower (cipher_name (AES_init ''0123456789abcdef'') @ ''-'' @
          str_nat (key_size (AES_init ''0123456789abcdef'')) @ ''-'' @ mode_name (CBC_init ''0000000000000000''))
   = ''aes-128-cbc''"
  by code_simp

lemma encode_aes_128_cbc: "encode_ascii ''aes-128-cbc'' = Inr ''aes-128-cbc''"
  by (simp add: encode_ascii_def)

lemma first_registration:
  "register_cipher_adapter Map.empty cc mc a = (Inr (), [(cc, mc) \<mapsto> a])"
  by (simp add: register_cipher_adapter_def)



lemma format_aes_128_cbc:
  "lower (format [Cipher_name, Lit ''-'', Cipher_key_size, Lit ''-'', Mode_name]
            (AES_init ''0123456789abcdef'') (CBC_init ''0000000000000000''))
   = ''aes-128-cbc''"
  by code_simp

lemma length_ffi_buffer: "length (ffi_buffer buf written) = length buf"
  by (simp add: ffi_buffer_def)

lemma length_slice_to_le: "length (slice_to b k) \<le> length b"
  by (simp add: slice_to_def)

lemma length_slice_to_exact: "0 \<le> k \<Longrightarrow> k \<le> int (length b) \<Longrightarrow> int (length (slice_to b k)) = k"
  by (simp add: slice_to_def)

lemma slice_to_all: "int (length b) \<le> k \<Longrightarrow> slice_to b k = b"
  by (simp add: slice_to_def)

lemma slice_to_ffi_buffer:
  "0 \<le> k \<Longrightarrow> k \<le> int (length buf) \<Longrightarrow> nat k \<le> length written \<Longrightarrow>
   slice_to (ffi_buffer buf written) k = take (nat k) written"
proof -
  assume a: "0 \<le> k" "k \<le> int (length buf)" "nat k \<le> length written"
  from a(1,2) have "nat k \<le> length buf" by linarith
  with a show ?thesis
    by (simp add: slice_to_def ffi_buffer_def min_def)
qed

lemma ffi_new_ok:
  "0 \<le> n \<Longrightarrow> n < 2 ^ 63 \<Longrightarrow> ffi_new n = Inr (replicate (nat n) (CHR 0x00))"
  by (simp add: ffi_new_def)

lemma block_size_fits: "sint (w :: 32 word) < 2 ^ 63"
proof -
  have "sint w < 2 ^ (LENGTH(32) - 1)" by (rule sint_lt)
  also have "\<dots> < (2 :: int) ^ 63" by simp
  finally show ?thesis .
qed



lemma sliced_buffer_facts:
  assumes "0 \<le> n" and "out = slice_to (ffi_buffer (replicate (nat n) z) written) outlen"
  shows "int (length out) \<le> n"
    and "int (length out) \<le> n + 1"
    and "0 \<le> outlen \<and> outlen \<le> n \<longrightarrow>
           int (length out) = outlen \<and> (nat outlen \<le> length written \<longrightarrow> out = take (nat outlen) written)"
    and "n \<le> outlen \<longrightarrow> int (length out) = n"
proof -
  have len: "int (length (ffi_buffer (replicate (nat n) z) written)) = n"
    using assms(1) by (simp add: length_ffi_buffer)
  have le: "length out \<le> length (ffi_buffer (replicate (nat n) z) written)"
    unfolding assms(2) by (rule length_slice_to_le)
  with len show "int (length out) \<le> n" by linarith
  then show "int (length out) \<le> n + 1" by linarith
  show "0 \<le> outlen \<and> outlen \<le> n \<longrightarrow>
           int (length out) = outlen \<and> (nat outlen \<le> length written \<longrightarrow> out = take (nat outlen) written)"
    unfolding assms(2) using len assms(1)
    by (auto simp: length_slice_to_exact slice_to_ffi_buffer)
  show "n \<le> outlen \<longrightarrow> int (length out) = n"
    unfolding assms(2) using len by (simp add: slice_to_all)
qed

lemma toy_block_size: "sint (EVP_CIPHER_CTX_block_size toy_lib s ctx) = 4"
  by (simp add: toy_lib_def)




lemma name_aes_256_ecb:
  "lower (format [Cipher_name, Lit ''-'', Cipher_key_size, Lit ''-'', Mode_name]
            (AES_init ''0123456789abcdef0123456789abcdef'') ECB_init)
   = ''aes-256-ecb''"
  by code_simp

lemma name_aes_128_ctr:
  "lower (format [Cipher_name, Lit ''-'', Cipher_key_size, Lit ''-'', Mode_name]
            (AES_init ''0123456789abcdef'')
            \<lparr>mode_type = CTR, mode_name = ''CTR'', initialization_vector = None,
              nonce = Some ''0000000000000001''\<rparr>)
   = ''aes-128-ctr''"
  by code_simp

lemma toy_new: "EVP_CIPHER_CTX_new toy_lib toy0 = (Ptr 1, toy0\<lparr>handles := 1\<rparr>)"
  by (simp add: toy_lib_def toy0_def)

lemma toy_byname:
  "EVP_get_cipherbyname toy_lib s ''aes-128-cbc'' = Ptr 101"
  "EVP_get_cipherbyname toy_lib s ''aes-256-ecb'' = Ptr 102"
  "EVP_get_cipherbyname toy_lib s ''des-ede3-cfb'' = Ptr 103"
  "EVP_get_cipherbyname toy_lib s ''aes-128-ctr'' = Ptr 104"
  by (simp_all add: toy_lib_def)

lemma toy_adapter_cbc:
  "GetCipherByName [Cipher_name, Lit ''-'', Cipher_key_size, Lit ''-'', Mode_name] toy_lib s
     (AES_init ''0123456789abcdef'') (CBC_init ''0000000000000000'') = Inr (Ptr 101)"
  unfolding GetCipherByName_def format_aes_128_cbc
  by (simp add: encode_ascii_def toy_byname)

lemma toy_adapter_ecb:
  "GetCipherByName [Cipher_name, Lit ''-'', Cipher_key_size, Lit ''-'', Mode_name] toy_lib s
     (AES_init ''0123456789abcdef0123456789abcdef'') ECB_init = Inr (Ptr 102)"
  unfolding GetCipherByName_def name_aes_256_ecb
  by (simp add: encode_ascii_def toy_byname)

lemma toy_adapter_ctr:
  "GetCipherByName [Cipher_name, Lit ''-'', Cipher_key_size, Lit ''-'', Mode_name] toy_lib s
     (AES_init ''0123456789abcdef'')
     \<lparr>mode_type = CTR, mode_name = ''CTR'', initialization_vector = None,
       nonce = Some ''0000000000000001''\<rparr> = Inr (Ptr 104)"
  unfolding GetCipherByName_def name_aes_128_ctr
  by (simp add: encode_ascii_def toy_byname)

lemma reg_default_aes:
  "snd (Ciphers_init :: (error + unit) \<times> 's registry) (cipher_type (AES_init k), CBC) =
     Some (GetCipherByName [Cipher_name, Lit ''-'', Cipher_key_size, Lit ''-'', Mode_name])"
  "snd (Ciphers_init :: (error + unit) \<times> 's registry) (cipher_type (AES_init k), ECB) =
     Some (GetCipherByName [Cipher_name, Lit ''-'', Cipher_key_size, Lit ''-'', Mode_name])"
  "snd (Ciphers_init :: (error + unit) \<times> 's registry) (cipher_type (AES_init k), CTR) =
     Some (GetCipherByName [Cipher_name, Lit ''-'', Cipher_key_size, Lit ''-'', Mode_name])"
  by (simp_all add: reg_default(2) AES_init_def)

lemma toy_create_ctx_cbc:
  "Ciphers_create_ctx toy_interfaces toy_lib (snd Ciphers_init) toy0
     (AES_init ''0123456789abcdef'') (CBC_init ''0000000000000000'') =
     (Inr (Ptr 1, Ptr 101, Bytes ''0000000000000000''), toy0\<lparr>handles := 1\<rparr>)"
proof -
  have r: "(snd Ciphers_init :: toy registry)
      (cipher_type (AES_init ''0123456789abcdef''), mode_type (CBC_init ''0000000000000000'')) =
      Some (GetCipherByName [Cipher_name, Lit ''-'', Cipher_key_size, Lit ''-'', Mode_name])"
    by (simp add: reg_default_aes CBC_init_def)
  have i: "ModeWithInitializationVector toy_interfaces (mode_type (CBC_init ''0000000000000000''))"
      "initialization_vector (CBC_init ''0000000000000000'') = Some ''0000000000000000''"
    by (simp_all add: toy_interfaces_def CBC_init_def)
  show ?thesis
    unfolding Ciphers_create_ctx_def toy_new r
    by (simp add: toy_adapter_cbc i)
qed

lemma toy_fields:
  "EVP_EncryptInit_ex toy_lib = toy_init" "EVP_DecryptInit_ex toy_lib = toy_init"
  "EVP_CIPHER_CTX_set_padding toy_lib = (\<lambda>s ctx p. (1, s\<lparr>padding := (p \<noteq> 0)\<rparr>))"
  by (simp_all add: toy_lib_def)

lemma toy_create_encrypt_ctx:
  "create_encrypt_ctx toy_interfaces toy_lib (snd Ciphers_init) toy0
     (AES_init ''0123456789abcdef'') (CBC_init ''0000000000000000'') =
     (Inr (Ptr 1), \<lparr>handles = 1, padding = False, held = [], released = False\<rparr>)"
  unfolding create_encrypt_ctx_def toy_create_ctx_cbc toy_fields
  by (simp add: toy_init_def toy0_def AES_init_def)

lemma toy_create_decrypt_ctx:
  "create_decrypt_ctx toy_interfaces toy_lib (snd Ciphers_init) toy0
     (AES_init ''0123456789abcdef'') (CBC_init ''0000000000000000'') =
     (Inr (Ptr 1), \<lparr>handles = 1, padding = False, held = [], released = False\<rparr>)"
  unfolding create_decrypt_ctx_def toy_create_ctx_cbc toy_fields
  by (simp add: toy_init_def toy0_def AES_init_def)

lemma broken_create_ctx_cbc:
  "Ciphers_create_ctx toy_interfaces broken_lib (snd Ciphers_init) toy0
     (AES_init ''0123456789abcdef'') (CBC_init ''0000000000000000'') =
     (Inr (Ptr 1, Ptr 101, Bytes ''0000000000000000''), toy0\<lparr>handles := 1\<rparr>)"
proof -
  have r: "(snd Ciphers_init :: toy registry)
      (cipher_type (AES_init ''0123456789abcdef''), mode_type (CBC_init ''0000000000000000'')) =
      Some (GetCipherByName [Cipher_name, Lit ''-'', Cipher_key_size, Lit ''-'', Mode_name])"
    by (simp add: reg_default_aes CBC_init_def)
  have i: "ModeWithInitializationVector toy_interfaces (mode_type (CBC_init ''0000000000000000''))"
      "initialization_vector (CBC_init ''0000000000000000'') = Some ''0000000000000000''"
    by (simp_all add: toy_interfaces_def CBC_init_def)
  have n: "EVP_CIPHER_CTX_new broken_lib toy0 = (Ptr 1, toy0\<lparr>handles := 1\<rparr>)"
    by (simp add: broken_lib_def toy_lib_def toy0_def)
  have a: "\<And>v. GetCipherByName [Cipher_name, Lit ''-'', Cipher_key_size, Lit ''-'', Mode_name] broken_lib
     v (AES_init ''0123456789abcdef'') (CBC_init ''0000000000000000'') =
     Inr (Ptr 101)"
    unfolding GetCipherByName_def format_aes_128_cbc
    by (simp add: encode_ascii_def broken_lib_def toy_lib_def)
  show ?thesis
    unfolding Ciphers_create_ctx_def n r
    by (simp add: a i)
qed

lemma broken_init:
  "EVP_EncryptInit_ex broken_lib s ctx evp impl k iv = (0, s)"
  "EVP_DecryptInit_ex broken_lib s ctx evp impl k iv = (0, s)"
  by (simp_all add: broken_lib_def)

lemma finalize_encrypt_ctx_ok:
  assumes "0 \<le> sint (EVP_CIPHER_CTX_block_size l s ctx)"
      and "EVP_EncryptFinal_ex l s ctx = ((res, written, outlen), s1)"
      and "res \<noteq> 0"
      and "EVP_CIPHER_CTX_cleanup l s1 ctx = (1, s2)"
  shows "finalize_encrypt_ctx l s ctx =
           (Inr (slice_to (ffi_buffer (replicate (nat (sint (EVP_CIPHER_CTX_block_size l s ctx)))
              (CHR 0x00)) written) outlen), s2)"
  using assms ffi_new_ok [OF assms(1) block_size_fits]
  by (simp add: finalize_encrypt_ctx_def)

lemma finalize_decrypt_ctx_ok:
  assumes "0 \<le> sint (EVP_CIPHER_CTX_block_size l s ctx)"
      and "EVP_DecryptFinal_ex l s ctx = ((res, written, outlen), s1)"
      and "res \<noteq> 0"
      and "EVP_CIPHER_CTX_cleanup l s1 ctx = (1, s2)"
  shows "finalize_decrypt_ctx l s ctx =
           (Inr (slice_to (ffi_buffer (replicate (nat (sint (EVP_CIPHER_CTX_block_size l s ctx)))
              (CHR 0x00)) written) outlen), s2)"
  using assms ffi_new_ok [OF assms(1) block_size_fits]
  by (simp add: finalize_decrypt_ctx_def)

lemma finalize_encrypt_ctx_success:
  "finalize_encrypt_ctx l s ctx = (Inr out, s') \<Longrightarrow>
   \<exists>res written outlen s1.
     EVP_EncryptFinal_ex l s ctx = ((res, written, outlen), s1) \<and> res \<noteq> 0 \<and>
     EVP_CIPHER_CTX_cleanup l s1 ctx = (1, s')"
  by (auto simp: finalize_encrypt_ctx_def Let_def split: prod.splits sum.splits if_splits)

lemma finalize_decrypt_ctx_success:
  "finalize_decrypt_ctx l s ctx = (Inr out, s') \<Longrightarrow>
   \<exists>res written outlen s1.
     EVP_DecryptFinal_ex l s ctx = ((res, written, outlen), s1) \<and> res \<noteq> 0 \<and>
     EVP_CIPHER_CTX_cleanup l s1 ctx = (1, s')"
  by (auto simp: finalize_decrypt_ctx_def Let_def split: prod.splits sum.splits if_splits)

lemma toy_final_fields:
  "EVP_EncryptFinal_ex toy_lib = toy_final" "EVP_DecryptFinal_ex toy_lib = toy_final"
  "EVP_CIPHER_CTX_cleanup toy_lib = (\<lambda>s ctx. (1, s\<lparr>held := [], released := True\<rparr>))"
  by (simp_all add: toy_lib_def)

lemma toy_final_empty:
  "toy_final \<lparr>handles = 1, padding = False, held = [], released = False\<rparr> ctx =
     ((1, [], 0), \<lparr>handles = 1, padding = False, held = [], released = False\<rparr>)"
  by (simp add: toy_final_def)

lemma toy_final_padded:
  "toy_final \<lparr>handles = 1, padding = True, held = ''ab'', released = False\<rparr> ctx =
     ((1, ''ab##'', 4), \<lparr>handles = 1, padding = True, held = [], released = False\<rparr>)"
  by (simp add: toy_final_def numeral_2_eq_2)




lemma toy_create_ctx_ecb:
  "Ciphers_create_ctx toy_interfaces toy_lib (snd Ciphers_init) toy0
     (AES_init ''0123456789abcdef0123456789abcdef'') ECB_init =
     (Inr (Ptr 1, Ptr 102, NULL), toy0\<lparr>handles := 1\<rparr>)"
proof -
  have r: "(snd Ciphers_init :: toy registry)
      (cipher_type (AES_init ''0123456789abcdef0123456789abcdef''), mode_type ECB_init) =
      Some (GetCipherByName [Cipher_name, Lit ''-'', Cipher_key_size, Lit ''-'', Mode_name])"
    by (simp add: reg_default_aes ECB_init_def)
  have i: "\<not> ModeWithInitializationVector toy_interfaces (mode_type ECB_init)"
      "\<not> ModeWithNonce toy_interfaces (mode_type ECB_init)"
    by (simp_all add: toy_interfaces_def ECB_init_def)
  show ?thesis
    unfolding Ciphers_create_ctx_def toy_new r
    by (simp add: toy_adapter_ecb i)
qed






section \<open>The default registry\<close>

text \<open>
  Claim C2. Populating an empty registry with the defaults succeeds. For every cipher of
  class AES or Camellia and every mode of class CBC, CTR, ECB, OFB or CFB the registered
  adapter looks up the lowercased name made of the cipher's name, its key size and the
  mode's name, joined by hyphens; for a TripleDES cipher and a mode of class CBC, CFB or OFB
  it looks up the lowercased \<open>des-ede3-\<close> followed by the mode's name, without any key size.
\<close>

theorem default_registry_names:
  "fst (Ciphers_init :: (error + unit) \<times> 's registry) = Inr () \<and>
   (\<forall>c m. cipher_type c \<in> {AES, Camellia} \<and> mode_type m \<in> {CBC, CTR, ECB, OFB, CFB} \<longrightarrow>
      (\<exists>adapter. snd Ciphers_init (cipher_type c, mode_type m) = Some adapter \<and>
         adapter (l :: 's lib) s c m =
           (case encode_ascii (lower (cipher_name c @ ''-'' @ str_nat (key_size c) @ ''-'' @ mode_name m)) of
              Inl e \<Rightarrow> Inl e
            | Inr b \<Rightarrow> Inr (EVP_get_cipherbyname l s b)))) \<and>
   (\<forall>c m. cipher_type c = TripleDES \<and> mode_type m \<in> {CBC, CFB, OFB} \<longrightarrow>
      (\<exists>adapter. snd Ciphers_init (cipher_type c, mode_type m) = Some adapter \<and>
         adapter l s c m =
           (case encode_ascii (lower (''des-ede3-'' @ mode_name m)) of
              Inl e \<Rightarrow> Inl e
            | Inr b \<Rightarrow> Inr (EVP_get_cipherbyname l s b))))"
proof (intro conjI allI impI)
  show "fst (Ciphers_init :: (error + unit) \<times> 's registry) = Inr ()"
    by (rule reg_default(1))
next
  fix c :: cipher and m :: mode
  assume h: "cipher_type c \<in> {AES, Camellia} \<and> mode_type m \<in> {CBC, CTR, ECB, OFB, CFB}"
  then have "snd (Ciphers_init :: (error + unit) \<times> 's registry) (cipher_type c, mode_type m) =
     Some (GetCipherByName [Cipher_name, Lit ''-'', Cipher_key_size, Lit ''-'', Mode_name])"
    by (auto simp: reg_default(2))
  then show "\<exists>adapter. snd Ciphers_init (cipher_type c, mode_type m) = Some adapter \<and>
         adapter l s c m =
           (case encode_ascii (lower (cipher_name c @ ''-'' @ str_nat (key_size c) @ ''-'' @ mode_name m)) of
              Inl e \<Rightarrow> Inl e
            | Inr b \<Rightarrow> Inr (EVP_get_cipherbyname l s b))"
    by (simp add: GetCipherByName_def format_def)
next
  fix c :: cipher and m :: mode
  assume h: "cipher_type c = TripleDES \<and> mode_type m \<in> {CBC, CFB, OFB}"
  then have "snd (Ciphers_init :: (error + unit) \<times> 's registry) (cipher_type c, mode_type m) =
     Some (GetCipherByName [Lit ''des-ede3-'', Mode_name])"
    by (auto simp: reg_default(3))
  then show "\<exists>adapter. snd Ciphers_init (cipher_type c, mode_type m) = Some adapter \<and>
         adapter l s c m =
           (case encode_ascii (lower (''des-ede3-'' @ mode_name m)) of
              Inl e \<Rightarrow> Inl e
            | Inr b \<Rightarrow> Inr (EVP_get_cipherbyname l s b))"
    by (simp add: GetCipherByName_def format_def)
qed

theorem default_registry_names_witness:
  "cipher_type (AES_init ''0123456789abcdef'') \<in> {AES, Camellia} \<and>
   mode_type (CBC_init ''0000000000000000'') \<in> {CBC, CTR, ECB, OFB, CFB} \<and>
   (\<exists>adapter. snd Ciphers_init (AES, CBC) = Some adapter \<and>
      adapter (toy_lib\<lparr>EVP_get_cipherbyname := (\<lambda>s b. Bytes b)\<rparr>) toy0
        (AES_init ''0123456789abcdef'') (CBC_init ''0000000000000000'') = Inr (Bytes ''aes-128-cbc''))"
proof -
  have t: "cipher_type (AES_init ''0123456789abcdef'') = AES"
          "mode_type (CBC_init ''0000000000000000'') = CBC"
    by (simp_all add: AES_init_def CBC_init_def)
  from default_registry_names [of "toy_lib\<lparr>EVP_get_cipherbyname := (\<lambda>s b. Bytes b)\<rparr>" toy0]
  have "\<forall>c m. cipher_type c \<in> {AES, Camellia} \<and> mode_type m \<in> {CBC, CTR, ECB, OFB, CFB} \<longrightarrow>
      (\<exists>adapter. snd Ciphers_init (cipher_type c, mode_type m) = Some adapter \<and>
         adapter (toy_lib\<lparr>EVP_get_cipherbyname := (\<lambda>s b. Bytes b)\<rparr>) toy0 c m =
           (case encode_ascii (lower (cipher_name c @ ''-'' @ str_nat (key_size c) @ ''-'' @ mode_name m)) of
              Inl e \<Rightarrow> Inl e
            | Inr b \<Rightarrow> Inr (EVP_get_cipherbyname (toy_lib\<lparr>EVP_get_cipherbyname := (\<lambda>s b. Bytes b)\<rparr>) toy0 b)))"
    by blast
  from this [rule_format, of "AES_init ''0123456789abcdef''" "CBC_init ''0000000000000000''"]
  show ?thesis
    unfolding name_aes_128_cbc encode_aes_128_cbc t by simp
qed

section \<open>Registration is one-shot\<close>

text \<open>
  Claim C3. When a pair of cipher class and mode class already has an adapter, another
  registration for that pair raises the duplicate-registration \<^verbatim>\<open>ValueError\<close> and
  leaves the registry as it was: the pair still maps to the first adapter, and both the
  support query and context creation go on using it.
\<close>

theorem duplicate_registration_rejected:
  assumes "reg (cc, mc) = Some a"
  shows "register_cipher_adapter reg cc mc b =
           (Inl (ValueError_duplicate_registration cc mc), reg) \<and>
         snd (register_cipher_adapter reg cc mc b) (cc, mc) = Some a \<and>
         (cipher_type c = cc \<and> mode_type m = mc \<longrightarrow>
            Ciphers_supported l (snd (register_cipher_adapter reg cc mc b)) s c m =
              (case a l s c m of Inl e \<Rightarrow> Inl e | Inr evp \<Rightarrow> Inr (NULL \<noteq> evp)) \<and>
            Ciphers_create_ctx ifc l (snd (register_cipher_adapter reg cc mc b)) s c m =
              Ciphers_create_ctx ifc l reg s c m)"
  using assms by (simp add: register_cipher_adapter_def Ciphers_supported_def)

theorem duplicate_registration_rejected_witness:
  "(let a = (GetCipherByName [Cipher_name, Lit ''-'', Cipher_key_size, Lit ''-'', Mode_name]
               :: toy adapter);
        reg = snd (register_cipher_adapter Map.empty AES CBC a);
        again = register_cipher_adapter reg AES CBC (\<lambda>l s c m. Inr NULL)
    in reg (AES, CBC) = Some a \<and>
       again = (Inl (ValueError_duplicate_registration AES CBC), reg) \<and>
       cipher_type (AES_init ''0123456789abcdef'') = AES \<and>
       mode_type (CBC_init ''0000000000000000'') = CBC \<and>
       Ciphers_supported toy_lib (snd again) toy0
         (AES_init ''0123456789abcdef'') (CBC_init ''0000000000000000'') = Inr True)"
proof -
  let ?a = "GetCipherByName [Cipher_name, Lit ''-'', Cipher_key_size, Lit ''-'', Mode_name] :: toy adapter"
  let ?reg = "snd (register_cipher_adapter Map.empty AES CBC ?a)"
  have h: "?reg (AES, CBC) = Some ?a"
    by (simp add: first_registration)
  have t: "cipher_type (AES_init ''0123456789abcdef'') = AES"
          "mode_type (CBC_init ''0000000000000000'') = CBC"
    by (simp_all add: AES_init_def CBC_init_def)
  have f: "format [Cipher_name, Lit ''-'', Cipher_key_size, Lit ''-'', Mode_name]
             (AES_init ''0123456789abcdef'') (CBC_init ''0000000000000000'') =
           cipher_name (AES_init ''0123456789abcdef'') @ ''-'' @
           str_nat (key_size (AES_init ''0123456789abcdef'')) @ ''-'' @
           mode_name (CBC_init ''0000000000000000'')"
    by (simp add: format_def)
  have a: "?a toy_lib toy0 (AES_init ''0123456789abcdef'') (CBC_init ''0000000000000000'') = Inr (Ptr 101)"
    unfolding GetCipherByName_def f name_aes_128_cbc by (simp add: encode_aes_128_cbc toy_lib_def)
  note d = duplicate_registration_rejected [where reg = "?reg" and cc = AES and mc = CBC
      and a = "?a" and b = "\<lambda>l s c m. Inr NULL" and c = "AES_init ''0123456789abcdef''"
      and m = "CBC_init ''0000000000000000''" and l = toy_lib and s = toy0, OF h]
  from d have again: "register_cipher_adapter ?reg AES CBC (\<lambda>l s c m. Inr NULL) =
      (Inl (ValueError_duplicate_registration AES CBC), ?reg)"
    by (rule conjunct1)
  from d t have "Ciphers_supported toy_lib
      (snd (register_cipher_adapter ?reg AES CBC (\<lambda>l s c m. Inr NULL))) toy0
      (AES_init ''0123456789abcdef'') (CBC_init ''0000000000000000'') =
      (case ?a toy_lib toy0 (AES_init ''0123456789abcdef'') (CBC_init ''0000000000000000'') of
         Inl e \<Rightarrow> Inl e | Inr evp \<Rightarrow> Inr (NULL \<noteq> evp))"
    by blast
  then have sup: "Ciphers_supported toy_lib
      (snd (register_cipher_adapter ?reg AES CBC (\<lambda>l s c m. Inr NULL))) toy0
      (AES_init ''0123456789abcdef'') (CBC_init ''0000000000000000'') = Inr True"
    unfolding a by simp
  show ?thesis
    unfolding Let_def using h again sup t by blast
qed

section \<open>Support queries\<close>




section \<open>Feeding a cipher context\<close>




section \<open>Choosing the initialization vector or nonce\<close>

text \<open>
  Claim C5. Once the registry has resolved the pair to a non-null cipher handle, the context
  triple carries the mode's initialization vector when the mode is an instance of the
  initialization-vector interface, the mode's nonce when it is an instance of the nonce
  interface only, and the null pointer when it is an instance of neither: for such a bare
  mode the result is the same whatever its two attributes hold, present or absent.
\<close>

theorem create_ctx_iv_nonce:
  assumes "reg (cipher_type c, mode_type m) = Some adapter"
      and "EVP_CIPHER_CTX_new l s = (ctx, t)"
      and "adapter l t c m = Inr evp"
      and "evp \<noteq> NULL"
  shows
   "(ModeWithInitializationVector ifc (mode_type m) \<longrightarrow>
       (\<forall>iv. initialization_vector m = Some iv \<longrightarrow>
          Ciphers_create_ctx ifc l reg s c m = (Inr (ctx, evp, Bytes iv), t))) \<and>
    (\<not> ModeWithInitializationVector ifc (mode_type m) \<and> ModeWithNonce ifc (mode_type m) \<longrightarrow>
       (\<forall>n. nonce m = Some n \<longrightarrow>
          Ciphers_create_ctx ifc l reg s c m = (Inr (ctx, evp, Bytes n), t))) \<and>
    (\<not> ModeWithInitializationVector ifc (mode_type m) \<and> \<not> ModeWithNonce ifc (mode_type m) \<longrightarrow>
       Ciphers_create_ctx ifc l reg s c m = (Inr (ctx, evp, NULL), t))"
  using assms by (simp add: Ciphers_create_ctx_def)

theorem create_ctx_iv_nonce_witness:
  "ModeWithInitializationVector toy_interfaces (mode_type (CBC_init ''0000000000000000'')) \<and>
   initialization_vector (CBC_init ''0000000000000000'') = Some ''0000000000000000'' \<and>
   Ciphers_create_ctx toy_interfaces toy_lib (snd Ciphers_init) toy0
     (AES_init ''0123456789abcdef'') (CBC_init ''0000000000000000'') =
     (Inr (Ptr 1, Ptr 101, Bytes ''0000000000000000''), toy0\<lparr>handles := 1\<rparr>) \<and>
   \<not> ModeWithInitializationVector toy_interfaces CTR \<and> ModeWithNonce toy_interfaces CTR \<and>
   Ciphers_create_ctx toy_interfaces toy_lib (snd Ciphers_init) toy0
     (AES_init ''0123456789abcdef'')
     \<lparr>mode_type = CTR, mode_name = ''CTR'', initialization_vector = None,
       nonce = Some ''0000000000000001''\<rparr> =
     (Inr (Ptr 1, Ptr 104, Bytes ''0000000000000001''), toy0\<lparr>handles := 1\<rparr>) \<and>
   \<not> ModeWithInitializationVector toy_interfaces (mode_type ECB_init) \<and>
   \<not> ModeWithNonce toy_interfaces (mode_type ECB_init) \<and>
   Ciphers_create_ctx toy_interfaces toy_lib (snd Ciphers_init) toy0
     (AES_init ''0123456789abcdef0123456789abcdef'') ECB_init =
     (Inr (Ptr 1, Ptr 102, NULL), toy0\<lparr>handles := 1\<rparr>)"
proof -
  let ?ctr = "\<lparr>mode_type = CTR, mode_name = ''CTR'', initialization_vector = None,
       nonce = Some ''0000000000000001''\<rparr>"
  let ?reg = "snd Ciphers_init :: toy registry"
  have caps:
    "ModeWithInitializationVector toy_interfaces (mode_type (CBC_init ''0000000000000000''))"
    "initialization_vector (CBC_init ''0000000000000000'') = Some ''0000000000000000''"
    "\<not> ModeWithInitializationVector toy_interfaces (mode_type ?ctr)"
    "ModeWithNonce toy_interfaces (mode_type ?ctr)"
    "nonce ?ctr = Some ''0000000000000001''"
    "\<not> ModeWithInitializationVector toy_interfaces (mode_type ECB_init)"
    "\<not> ModeWithNonce toy_interfaces (mode_type ECB_init)"
    by (simp_all add: toy_interfaces_def CBC_init_def ECB_init_def)
  have r1: "?reg (cipher_type (AES_init ''0123456789abcdef''), mode_type (CBC_init ''0000000000000000'')) =
      Some (GetCipherByName [Cipher_name, Lit ''-'', Cipher_key_size, Lit ''-'', Mode_name])"
    by (simp add: reg_default_aes CBC_init_def)
  have r2: "?reg (cipher_type (AES_init ''0123456789abcdef''), mode_type ?ctr) =
      Some (GetCipherByName [Cipher_name, Lit ''-'', Cipher_key_size, Lit ''-'', Mode_name])"
    by (simp add: reg_default_aes)
  have r3: "?reg (cipher_type (AES_init ''0123456789abcdef0123456789abcdef''), mode_type ECB_init) =
      Some (GetCipherByName [Cipher_name, Lit ''-'', Cipher_key_size, Lit ''-'', Mode_name])"
    by (simp add: reg_default_aes ECB_init_def)
  have w1: "Ciphers_create_ctx toy_interfaces toy_lib ?reg toy0
     (AES_init ''0123456789abcdef'') (CBC_init ''0000000000000000'') =
     (Inr (Ptr 1, Ptr 101, Bytes ''0000000000000000''), toy0\<lparr>handles := 1\<rparr>)"
    using create_ctx_iv_nonce [where reg = "?reg" and c = "AES_init ''0123456789abcdef''" and m = "CBC_init ''0000000000000000''"
        and adapter = "GetCipherByName [Cipher_name, Lit ''-'', Cipher_key_size, Lit ''-'', Mode_name]"
        and l = toy_lib and s = toy0 and ctx = "Ptr 1" and t = "toy0\<lparr>handles := 1\<rparr>"
        and evp = "Ptr 101" and ifc = toy_interfaces]
      r1 toy_new toy_adapter_cbc caps(1,2) by simp
  have w2: "Ciphers_create_ctx toy_interfaces toy_lib ?reg toy0
     (AES_init ''0123456789abcdef'') ?ctr =
     (Inr (Ptr 1, Ptr 104, Bytes ''0000000000000001''), toy0\<lparr>handles := 1\<rparr>)"
    using create_ctx_iv_nonce [where reg = "?reg" and c = "AES_init ''0123456789abcdef''" and m = "?ctr"
        and adapter = "GetCipherByName [Cipher_name, Lit ''-'', Cipher_key_size, Lit ''-'', Mode_name]"
        and l = toy_lib and s = toy0 and ctx = "Ptr 1" and t = "toy0\<lparr>handles := 1\<rparr>"
        and evp = "Ptr 104" and ifc = toy_interfaces]
      r2 toy_new toy_adapter_ctr caps(3,4,5) by simp
  have w3: "Ciphers_create_ctx toy_interfaces toy_lib ?reg toy0
     (AES_init ''0123456789abcdef0123456789abcdef'') ECB_init =
     (Inr (Ptr 1, Ptr 102, NULL), toy0\<lparr>handles := 1\<rparr>)"
    using create_ctx_iv_nonce [where reg = "?reg" and c = "AES_init ''0123456789abcdef0123456789abcdef''" and m = "ECB_init"
        and adapter = "GetCipherByName [Cipher_name, Lit ''-'', Cipher_key_size, Lit ''-'', Mode_name]"
        and l = toy_lib and s = toy0 and ctx = "Ptr 1" and t = "toy0\<lparr>handles := 1\<rparr>"
        and evp = "Ptr 102" and ifc = toy_interfaces]
      r3 toy_new toy_adapter_ecb caps(6,7) by simp
  from caps(3,4) have c34: "\<not> ModeWithInitializationVector toy_interfaces CTR"
      "ModeWithNonce toy_interfaces CTR"
    by simp_all
  show ?thesis
    using caps(1,2) w1 c34 w2 caps(6,7) w3 by blast
qed

section \<open>Creating a cipher context\<close>

text \<open>
  Claim C7. Every successful \<^verbatim>\<open>create_encrypt_ctx\<close> and \<^verbatim>\<open>create_decrypt_ctx\<close>
  returns the context it initialized in the state left by
  \<^verbatim>\<open>EVP_CIPHER_CTX_set_padding(ctx, 0)\<close>, called after the successful initialization: in
  any engine where that call switches padding off for its context, the returned context has
  padding off.
\<close>

theorem created_ctx_has_padding_disabled:
  "(\<forall>ctx s'. create_encrypt_ctx ifc l reg s c m = (Inr ctx, s') \<longrightarrow>
      (\<exists>evp iv_nonce t res u.
         Ciphers_create_ctx ifc l reg s c m = (Inr (ctx, evp, iv_nonce), t) \<and>
         EVP_EncryptInit_ex l t ctx evp NULL (key c) iv_nonce = (res, u) \<and> res \<noteq> 0 \<and>
         s' = snd (EVP_CIPHER_CTX_set_padding l u ctx 0)) \<and>
      (\<forall>P. (\<forall>v x. \<not> P (snd (EVP_CIPHER_CTX_set_padding l v x 0)) x) \<longrightarrow> \<not> P s' ctx)) \<and>
   (\<forall>ctx s'. create_decrypt_ctx ifc l reg s c m = (Inr ctx, s') \<longrightarrow>
      (\<exists>evp iv_nonce t res u.
         Ciphers_create_ctx ifc l reg s c m = (Inr (ctx, evp, iv_nonce), t) \<and>
         EVP_DecryptInit_ex l t ctx evp NULL (key c) iv_nonce = (res, u) \<and> res \<noteq> 0 \<and>
         s' = snd (EVP_CIPHER_CTX_set_padding l u ctx 0)) \<and>
      (\<forall>P. (\<forall>v x. \<not> P (snd (EVP_CIPHER_CTX_set_padding l v x 0)) x) \<longrightarrow> \<not> P s' ctx))"
proof (intro conjI allI impI)
  fix ctx s'
  assume h: "create_encrypt_ctx ifc l reg s c m = (Inr ctx, s')"
  then show e: "\<exists>evp iv_nonce t res u.
         Ciphers_create_ctx ifc l reg s c m = (Inr (ctx, evp, iv_nonce), t) \<and>
         EVP_EncryptInit_ex l t ctx evp NULL (key c) iv_nonce = (res, u) \<and> res \<noteq> 0 \<and>
         s' = snd (EVP_CIPHER_CTX_set_padding l u ctx 0)"
    by (auto simp: create_encrypt_ctx_def split: prod.splits sum.splits if_splits)
  fix P :: "'a \<Rightarrow> cdata \<Rightarrow> bool"
  assume "\<forall>v x. \<not> P (snd (EVP_CIPHER_CTX_set_padding l v x 0)) x"
  with e show "\<not> P s' ctx" by blast
next
  fix ctx s'
  assume h: "create_decrypt_ctx ifc l reg s c m = (Inr ctx, s')"
  then show e: "\<exists>evp iv_nonce t res u.
         Ciphers_create_ctx ifc l reg s c m = (Inr (ctx, evp, iv_nonce), t) \<and>
         EVP_DecryptInit_ex l t ctx evp NULL (key c) iv_nonce = (res, u) \<and> res \<noteq> 0 \<and>
         s' = snd (EVP_CIPHER_CTX_set_padding l u ctx 0)"
    by (auto simp: create_decrypt_ctx_def split: prod.splits sum.splits if_splits)
  fix P :: "'a \<Rightarrow> cdata \<Rightarrow> bool"
  assume "\<forall>v x. \<not> P (snd (EVP_CIPHER_CTX_set_padding l v x 0)) x"
  with e show "\<not> P s' ctx" by blast
qed

theorem created_ctx_has_padding_disabled_witness:
  "create_encrypt_ctx toy_interfaces toy_lib (snd Ciphers_init) toy0
     (AES_init ''0123456789abcdef'') (CBC_init ''0000000000000000'') =
     (Inr (Ptr 1), \<lparr>handles = 1, padding = False, held = [], released = False\<rparr>) \<and>
   create_decrypt_ctx toy_interfaces toy_lib (snd Ciphers_init) toy0
     (AES_init ''0123456789abcdef'') (CBC_init ''0000000000000000'') =
     (Inr (Ptr 1), \<lparr>handles = 1, padding = False, held = [], released = False\<rparr>) \<and>
   (\<forall>v x. \<not> padding (snd (EVP_CIPHER_CTX_set_padding toy_lib v x 0))) \<and>
   \<not> padding (snd (create_encrypt_ctx toy_interfaces toy_lib (snd Ciphers_init) toy0
     (AES_init ''0123456789abcdef'') (CBC_init ''0000000000000000''))) \<and>
   \<not> padding (snd (create_decrypt_ctx toy_interfaces toy_lib (snd Ciphers_init) toy0
     (AES_init ''0123456789abcdef'') (CBC_init ''0000000000000000'')))"
proof -
  let ?s' = "\<lparr>handles = 1, padding = False, held = [], released = False\<rparr>"
  note t = created_ctx_has_padding_disabled [where ifc = toy_interfaces and l = toy_lib
      and reg = "snd Ciphers_init" and s = toy0 and c = "AES_init ''0123456789abcdef''"
      and m = "CBC_init ''0000000000000000''"]
  have off: "\<forall>v x. \<not> padding (snd (EVP_CIPHER_CTX_set_padding toy_lib v x 0))"
    by (simp add: toy_fields)
  from t [THEN conjunct1, rule_format, OF toy_create_encrypt_ctx, THEN conjunct2, rule_format,
      of "\<lambda>s x. padding s"] off
  have e: "\<not> padding ?s'" by simp
  from t [THEN conjunct2, rule_format, OF toy_create_decrypt_ctx, THEN conjunct2, rule_format,
      of "\<lambda>s x. padding s"] off
  have d: "\<not> padding ?s'" by simp
  show ?thesis
    using e d off by (simp add: toy_create_encrypt_ctx toy_create_decrypt_ctx)
qed

text \<open>
  Claim C8. When the native initialization call returns 0, \<^verbatim>\<open>create_encrypt_ctx\<close> and
  \<^verbatim>\<open>create_decrypt_ctx\<close> fail their assertion: the outcome is the assertion failure, not
  a context and not one of the registry's errors, and padding is left untouched.
\<close>

theorem init_failure_is_fatal:
  assumes "Ciphers_create_ctx ifc l reg s c m = (Inr (ctx, evp, iv_nonce), t)"
  shows "(\<forall>u. EVP_EncryptInit_ex l t ctx evp NULL (key c) iv_nonce = (0, u) \<longrightarrow>
            create_encrypt_ctx ifc l reg s c m = (Inl AssertionError, u)) \<and>
         (\<forall>u. EVP_DecryptInit_ex l t ctx evp NULL (key c) iv_nonce = (0, u) \<longrightarrow>
            create_decrypt_ctx ifc l reg s c m = (Inl AssertionError, u))"
  using assms by (simp add: create_encrypt_ctx_def create_decrypt_ctx_def)

theorem init_failure_is_fatal_witness:
  "Ciphers_create_ctx toy_interfaces broken_lib (snd Ciphers_init) toy0
     (AES_init ''0123456789abcdef'') (CBC_init ''0000000000000000'') =
     (Inr (Ptr 1, Ptr 101, Bytes ''0000000000000000''), toy0\<lparr>handles := 1\<rparr>) \<and>
   EVP_EncryptInit_ex broken_lib (toy0\<lparr>handles := 1\<rparr>) (Ptr 1) (Ptr 101) NULL
     (key (AES_init ''0123456789abcdef'')) (Bytes ''0000000000000000'') = (0, toy0\<lparr>handles := 1\<rparr>) \<and>
   create_encrypt_ctx toy_interfaces broken_lib (snd Ciphers_init) toy0
     (AES_init ''0123456789abcdef'') (CBC_init ''0000000000000000'') =
     (Inl AssertionError, toy0\<lparr>handles := 1\<rparr>) \<and>
   EVP_DecryptInit_ex broken_lib (toy0\<lparr>handles := 1\<rparr>) (Ptr 1) (Ptr 101) NULL
     (key (AES_init ''0123456789abcdef'')) (Bytes ''0000000000000000'') = (0, toy0\<lparr>handles := 1\<rparr>) \<and>
   create_decrypt_ctx toy_interfaces broken_lib (snd Ciphers_init) toy0
     (AES_init ''0123456789abcdef'') (CBC_init ''0000000000000000'') =
     (Inl AssertionError, toy0\<lparr>handles := 1\<rparr>)"
  using init_failure_is_fatal [OF broken_create_ctx_cbc] broken_create_ctx_cbc
  by (simp add: broken_init)

section \<open>Finalizing a cipher context\<close>

text \<open>
  Claim C6. Both finalize functions allocate a buffer of exactly \<open>block_size\<close> bytes. When
  the final call and the context cleanup both report success, they return the slice of
  that buffer up to the reported \<open>outlen\<close>, between zero and \<open>block_size\<close> bytes, in the
  state left by \<^verbatim>\<open>EVP_CIPHER_CTX_cleanup\<close>; and every successful return comes from this
  path, after a cleanup that returned 1.
\<close>

theorem finalize_ctx_output:
  assumes bs: "sint (EVP_CIPHER_CTX_block_size l s ctx) = bs"
      and alloc: "0 \<le> bs"
  shows
   "(\<forall>res written outlen s1 s2.
       EVP_EncryptFinal_ex l s ctx = ((res, written, outlen), s1) \<and> res \<noteq> 0 \<and>
       EVP_CIPHER_CTX_cleanup l s1 ctx = (1, s2) \<longrightarrow>
       (\<exists>out. finalize_encrypt_ctx l s ctx = (Inr out, s2) \<and>
          out = slice_to (ffi_buffer (replicate (nat bs) (CHR 0x00)) written) outlen \<and>
          int (length out) \<le> bs \<and>
          (0 \<le> outlen \<and> outlen \<le> bs \<longrightarrow>
             int (length out) = outlen \<and>
             (nat outlen \<le> length written \<longrightarrow> out = take (nat outlen) written)) \<and>
          (bs \<le> outlen \<longrightarrow> int (length out) = bs))) \<and>
    (\<forall>res written outlen s1 s2.
       EVP_DecryptFinal_ex l s ctx = ((res, written, outlen), s1) \<and> res \<noteq> 0 \<and>
       EVP_CIPHER_CTX_cleanup l s1 ctx = (1, s2) \<longrightarrow>
       (\<exists>out. finalize_decrypt_ctx l s ctx = (Inr out, s2) \<and>
          out = slice_to (ffi_buffer (replicate (nat bs) (CHR 0x00)) written) outlen \<and>
          int (length out) \<le> bs \<and>
          (0 \<le> outlen \<and> outlen \<le> bs \<longrightarrow>
             int (length out) = outlen \<and>
             (nat outlen \<le> length written \<longrightarrow> out = take (nat outlen) written)) \<and>
          (bs \<le> outlen \<longrightarrow> int (length out) = bs))) \<and>
    (\<forall>out s'. finalize_encrypt_ctx l s ctx = (Inr out, s') \<longrightarrow>
       (\<exists>res written outlen s1.
          EVP_EncryptFinal_ex l s ctx = ((res, written, outlen), s1) \<and> res \<noteq> 0 \<and>
          EVP_CIPHER_CTX_cleanup l s1 ctx = (1, s'))) \<and>
    (\<forall>out s'. finalize_decrypt_ctx l s ctx = (Inr out, s') \<longrightarrow>
       (\<exists>res written outlen s1.
          EVP_DecryptFinal_ex l s ctx = ((res, written, outlen), s1) \<and> res \<noteq> 0 \<and>
          EVP_CIPHER_CTX_cleanup l s1 ctx = (1, s')))"
proof (intro conjI allI impI)
  fix res written outlen s1 s2
  assume h: "EVP_EncryptFinal_ex l s ctx = ((res, written, outlen), s1) \<and> res \<noteq> 0 \<and>
       EVP_CIPHER_CTX_cleanup l s1 ctx = (1, s2)"
  let ?out = "slice_to (ffi_buffer (replicate (nat bs) (CHR 0x00)) written) outlen"
  have r: "finalize_encrypt_ctx l s ctx = (Inr ?out, s2)"
    using finalize_encrypt_ctx_ok [of l s ctx res written outlen s1 s2] h alloc bs by simp
  note f = sliced_buffer_facts [OF alloc refl, where z = "CHR 0x00" and written = written
      and outlen = outlen]
  from r f(1,3,4)
  show "(\<exists>out. finalize_encrypt_ctx l s ctx = (Inr out, s2) \<and>
      out = slice_to (ffi_buffer (replicate (nat bs) (CHR 0x00)) written) outlen \<and>
      int (length out) \<le> bs \<and>
      (0 \<le> outlen \<and> outlen \<le> bs \<longrightarrow>
         int (length out) = outlen \<and>
         (nat outlen \<le> length written \<longrightarrow> out = take (nat outlen) written)) \<and>
      (bs \<le> outlen \<longrightarrow> int (length out) = bs))"
    by blast
next
  fix res written outlen s1 s2
  assume h: "EVP_DecryptFinal_ex l s ctx = ((res, written, outlen), s1) \<and> res \<noteq> 0 \<and>
       EVP_CIPHER_CTX_cleanup l s1 ctx = (1, s2)"
  let ?out = "slice_to (ffi_buffer (replicate (nat bs) (CHR 0x00)) written) outlen"
  have r: "finalize_decrypt_ctx l s ctx = (Inr ?out, s2)"
    using finalize_decrypt_ctx_ok [of l s ctx res written outlen s1 s2] h alloc bs by simp
  note f = sliced_buffer_facts [OF alloc refl, where z = "CHR 0x00" and written = written
      and outlen = outlen]
  from r f(1,3,4)
  show "(\<exists>out. finalize_decrypt_ctx l s ctx = (Inr out, s2) \<and>
      out = slice_to (ffi_buffer (replicate (nat bs) (CHR 0x00)) written) outlen \<and>
      int (length out) \<le> bs \<and>
      (0 \<le> outlen \<and> outlen \<le> bs \<longrightarrow>
         int (length out) = outlen \<and>
         (nat outlen \<le> length written \<longrightarrow> out = take (nat outlen) written)) \<and>
      (bs \<le> outlen \<longrightarrow> int (length out) = bs))"
    by blast
next
  fix out s'
  assume "finalize_encrypt_ctx l s ctx = (Inr out, s')"
  then show "(\<exists>res written outlen s1.
      EVP_EncryptFinal_ex l s ctx = ((res, written, outlen), s1) \<and> res \<noteq> 0 \<and>
      EVP_CIPHER_CTX_cleanup l s1 ctx = (1, s'))"
    by (rule finalize_encrypt_ctx_success)
next
  fix out s'
  assume "finalize_decrypt_ctx l s ctx = (Inr out, s')"
  then show "(\<exists>res written outlen s1.
      EVP_DecryptFinal_ex l s ctx = ((res, written, outlen), s1) \<and> res \<noteq> 0 \<and>
      EVP_CIPHER_CTX_cleanup l s1 ctx = (1, s'))"
    by (rule finalize_decrypt_ctx_success)
qed

theorem finalize_ctx_output_witness:
  "sint (EVP_CIPHER_CTX_block_size toy_lib
     \<lparr>handles = 1, padding = False, held = [], released = False\<rparr> (Ptr 1)) = 4 \<and>
   (0 :: int) \<le> 4 \<and>
   EVP_EncryptFinal_ex toy_lib \<lparr>handles = 1, padding = False, held = [], released = False\<rparr> (Ptr 1) =
     ((1, [], 0), \<lparr>handles = 1, padding = False, held = [], released = False\<rparr>) \<and>
   EVP_CIPHER_CTX_cleanup toy_lib \<lparr>handles = 1, padding = False, held = [], released = False\<rparr> (Ptr 1) =
     (1, \<lparr>handles = 1, padding = False, held = [], released = True\<rparr>) \<and>
   finalize_encrypt_ctx toy_lib \<lparr>handles = 1, padding = False, held = [], released = False\<rparr> (Ptr 1) =
     (Inr [], \<lparr>handles = 1, padding = False, held = [], released = True\<rparr>) \<and>
   EVP_DecryptFinal_ex toy_lib \<lparr>handles = 1, padding = True, held = ''ab'', released = False\<rparr> (Ptr 1) =
     ((1, ''ab##'', 4), \<lparr>handles = 1, padding = True, held = [], released = False\<rparr>) \<and>
   EVP_CIPHER_CTX_cleanup toy_lib \<lparr>handles = 1, padding = True, held = [], released = False\<rparr> (Ptr 1) =
     (1, \<lparr>handles = 1, padding = True, held = [], released = True\<rparr>) \<and>
   finalize_decrypt_ctx toy_lib \<lparr>handles = 1, padding = True, held = ''ab'', released = False\<rparr> (Ptr 1) =
     (Inr ''ab##'', \<lparr>handles = 1, padding = True, held = [], released = True\<rparr>) \<and>
   released (snd (finalize_encrypt_ctx toy_lib
     \<lparr>handles = 1, padding = False, held = [], released = False\<rparr> (Ptr 1))) \<and>
   released (snd (finalize_decrypt_ctx toy_lib
     \<lparr>handles = 1, padding = True, held = ''ab'', released = False\<rparr> (Ptr 1)))"
proof -
  let ?a = "\<lparr>handles = 1, padding = False, held = [], released = False\<rparr>"
  let ?a' = "\<lparr>handles = 1, padding = False, held = [], released = True\<rparr>"
  let ?b = "\<lparr>handles = 1, padding = True, held = ''ab'', released = False\<rparr>"
  let ?b1 = "\<lparr>handles = 1, padding = True, held = [], released = False\<rparr>"
  let ?b' = "\<lparr>handles = 1, padding = True, held = [], released = True\<rparr>"
  have bsa: "sint (EVP_CIPHER_CTX_block_size toy_lib ?a (Ptr 1)) = 4"
    and bsb: "sint (EVP_CIPHER_CTX_block_size toy_lib ?b (Ptr 1)) = 4"
    by (rule toy_block_size)+
  have z: "(0 :: int) \<le> 4" by simp
  have fa: "EVP_EncryptFinal_ex toy_lib ?a (Ptr 1) = ((1, [], 0), ?a)"
    unfolding toy_final_fields by (rule toy_final_empty)
  have ca: "EVP_CIPHER_CTX_cleanup toy_lib ?a (Ptr 1) = (1, ?a')"
    unfolding toy_final_fields by simp
  have fb: "EVP_DecryptFinal_ex toy_lib ?b (Ptr 1) = ((1, ''ab##'', 4), ?b1)"
    unfolding toy_final_fields by (rule toy_final_padded)
  have cb: "EVP_CIPHER_CTX_cleanup toy_lib ?b1 (Ptr 1) = (1, ?b')"
    unfolding toy_final_fields by simp
  note ta = finalize_ctx_output [OF bsa z]
  note tb = finalize_ctx_output [OF bsb z]
  from ta [THEN conjunct1, rule_format, of 1 "[]" 0 ?a ?a'] fa ca
  have wa: "finalize_encrypt_ctx toy_lib ?a (Ptr 1) = (Inr [], ?a')"
    by auto
  from tb [THEN conjunct2, THEN conjunct1, rule_format, of 1 "''ab##''" 4 ?b1 ?b'] fb cb
  have wb: "finalize_decrypt_ctx toy_lib ?b (Ptr 1) = (Inr ''ab##'', ?b')"
    by auto
  from ta [THEN conjunct2, THEN conjunct2, THEN conjunct1, rule_format, OF wa] ca fa
  have ra: "released (snd (finalize_encrypt_ctx toy_lib ?a (Ptr 1)))"
    by (subst wa) simp
  from tb [THEN conjunct2, THEN conjunct2, THEN conjunct2, rule_format, OF wb] cb fb
  have rb: "released (snd (finalize_decrypt_ctx toy_lib ?b (Ptr 1)))"
    by (subst wb) simp
  show ?thesis
    using bsa z fa ca wa fb cb wb ra rb by blast
qed

section \<open>Finalizing a digest context\<close>




section \<open>The modes' own accessor\<close>

text \<open>
  Claim C10. The two mode classes of \<^verbatim>\<open>modes.py\<close> each have a method
  \<^verbatim>\<open>get_iv_or_nonce(api)\<close>: on a CBC mode it returns the initialization vector the mode was
  built with, whatever \<open>api\<close> is; on an ECB mode it returns \<^verbatim>\<open>api.get_null_for_ecb()\<close>.
  The backend does not go through it: for a CBC mode of the initialization-vector interface
  the backend reads the same vector from the attribute, and for a bare ECB mode it passes
  the null pointer itself, whatever \<open>api\<close> would have answered.
\<close>

theorem get_iv_or_nonce_methods:
  "CBC_get_iv_or_nonce (CBC_init iv) a = Inr (Bytes iv) \<and>
   ECB_get_iv_or_nonce ECB_init a = Inr (get_null_for_ecb a) \<and>
   (\<forall>ctx evp x t.
      Ciphers_create_ctx ifc l reg s c (CBC_init iv) = (Inr (ctx, evp, x), t) \<and>
      ModeWithInitializationVector ifc CBC \<longrightarrow>
      Inr x = CBC_get_iv_or_nonce (CBC_init iv) a) \<and>
   (\<forall>ctx evp x t.
      Ciphers_create_ctx ifc l reg s c ECB_init = (Inr (ctx, evp, x), t) \<and>
      \<not> ModeWithInitializationVector ifc ECB \<and> \<not> ModeWithNonce ifc ECB \<longrightarrow>
      x = NULL)"
proof (intro conjI allI impI)
  show "CBC_get_iv_or_nonce (CBC_init iv) a = Inr (Bytes iv)"
    by (simp add: CBC_get_iv_or_nonce_def CBC_init_def)
  show "ECB_get_iv_or_nonce ECB_init a = Inr (get_null_for_ecb a)"
    by (simp add: ECB_get_iv_or_nonce_def)
next
  fix ctx evp x t
  assume "Ciphers_create_ctx ifc l reg s c (CBC_init iv) = (Inr (ctx, evp, x), t) \<and>
      ModeWithInitializationVector ifc CBC"
  then show "Inr x = CBC_get_iv_or_nonce (CBC_init iv) a"
    by (auto simp: Ciphers_create_ctx_def CBC_get_iv_or_nonce_def CBC_init_def
          split: prod.splits option.splits sum.splits if_splits)
next
  fix ctx evp x t
  assume "Ciphers_create_ctx ifc l reg s c ECB_init = (Inr (ctx, evp, x), t) \<and>
      \<not> ModeWithInitializationVector ifc ECB \<and> \<not> ModeWithNonce ifc ECB"
  then show "x = NULL"
    by (auto simp: Ciphers_create_ctx_def ECB_init_def
          split: prod.splits option.splits sum.splits if_splits)
qed

theorem get_iv_or_nonce_methods_witness:
  "Ciphers_create_ctx toy_interfaces toy_lib (snd Ciphers_init) toy0
     (AES_init ''0123456789abcdef'') (CBC_init ''0000000000000000'') =
     (Inr (Ptr 1, Ptr 101, Bytes ''0000000000000000''), toy0\<lparr>handles := 1\<rparr>) \<and>
   ModeWithInitializationVector toy_interfaces CBC \<and>
   CBC_get_iv_or_nonce (CBC_init ''0000000000000000'') \<lparr>get_null_for_ecb = Ptr 7\<rparr> =
     Inr (Bytes ''0000000000000000'') \<and>
   Ciphers_create_ctx toy_interfaces toy_lib (snd Ciphers_init) toy0
     (AES_init ''0123456789abcdef0123456789abcdef'') ECB_init =
     (Inr (Ptr 1, Ptr 102, NULL), toy0\<lparr>handles := 1\<rparr>) \<and>
   \<not> ModeWithInitializationVector toy_interfaces ECB \<and>
   \<not> ModeWithNonce toy_interfaces ECB \<and>
   ECB_get_iv_or_nonce ECB_init \<lparr>get_null_for_ecb = Ptr 7\<rparr> = Inr (Ptr 7)"
proof -
  have caps: "ModeWithInitializationVector toy_interfaces CBC"
      "\<not> ModeWithInitializationVector toy_interfaces ECB"
      "\<not> ModeWithNonce toy_interfaces ECB"
    by (simp_all add: toy_interfaces_def)
  note t1 = get_iv_or_nonce_methods [where iv = "''0000000000000000''"
      and a = "\<lparr>get_null_for_ecb = Ptr 7\<rparr>" and ifc = toy_interfaces and l = toy_lib
      and reg = "snd Ciphers_init" and s = toy0 and c = "AES_init ''0123456789abcdef''"]
  note t2 = get_iv_or_nonce_methods [where iv = "''0000000000000000''"
      and a = "\<lparr>get_null_for_ecb = Ptr 7\<rparr>" and ifc = toy_interfaces and l = toy_lib
      and reg = "snd Ciphers_init" and s = toy0
      and c = "AES_init ''0123456789abcdef0123456789abcdef''"]
  from t1 [THEN conjunct2, THEN conjunct2, THEN conjunct1, rule_format,
      of "Ptr 1" "Ptr 101" "Bytes ''0000000000000000''" "toy0\<lparr>handles := 1\<rparr>"]
    toy_create_ctx_cbc caps(1)
  have m1: "CBC_get_iv_or_nonce (CBC_init ''0000000000000000'')
       \<lparr>get_null_for_ecb = Ptr 7\<rparr> = Inr (Bytes ''0000000000000000'')"
    by simp
  from t2 have m2: "ECB_get_iv_or_nonce ECB_init \<lparr>get_null_for_ecb = Ptr 7\<rparr> = Inr (Ptr 7)"
    by simp
  show ?thesis
    using toy_create_ctx_cbc caps(1) m1 toy_create_ctx_ecb caps(2,3) m2 by blast
qed

end
